theory Spec2Isabelle
  imports Complex_Main "HOL-Library.Word" "HOL-Library.Sublist" "HOL-Library.Finite_Map"
begin

section \<open>JavaScript strings\<close>

text \<open>
  A JavaScript string is a sequence of UTF-16 code units; \<open>length\<close>, \<open>includes\<close>,
  \<open>endsWith\<close> and \<open>split\<close> all work on code units. ASCII text of the source is
  written \<open>js ''...''\<close>; characters outside ASCII are given by their code units.
\<close>

type_synonym jsstring = "16 word list"

definition js :: "string \<Rightarrow> jsstring" where
  "js s = map of_char s"

definition LF :: "16 word" where
  "LF = 0x0A"

text \<open>\<open>s.includes(k)\<close>: \<open>k\<close> matches at some position of \<open>s\<close>.\<close>

fun includes_js :: "'a list \<Rightarrow> 'a list \<Rightarrow> bool" where
  "includes_js [] k = (k = [])"
| "includes_js (c # cs) k = (prefix k (c # cs) \<or> includes_js cs k)"

text \<open>\<open>s.endsWith(k)\<close>.\<close>

definition endsWith :: "'a list \<Rightarrow> 'a list \<Rightarrow> bool" where
  "endsWith s k = prefix (rev k) (rev s)"

text \<open>\<open>s.split('\n')\<close>: the pieces between line feeds; never the empty array.\<close>

fun split_LF :: "jsstring \<Rightarrow> jsstring list" where
  "split_LF [] = [[]]"
| "split_LF (c # cs) =
     (if c = LF then [] # split_LF cs
      else (case split_LF cs of [] \<Rightarrow> [[c]] | l # ls \<Rightarrow> (c # l) # ls))"

text \<open>\<open>lines.join('\n')\<close>.\<close>

fun join_LF :: "jsstring list \<Rightarrow> jsstring" where
  "join_LF [] = []"
| "join_LF [l] = l"
| "join_LF (l # ls) = l @ LF # join_LF ls"

text \<open>A non-negative integer as JavaScript prints it: decimal, no leading zero.\<close>

fun decimal :: "nat \<Rightarrow> jsstring" where
  "decimal n =
     (if n < 10 then [0x30 + of_nat n]
      else decimal (n div 10) @ [0x30 + of_nat (n mod 10)])"

declare decimal.simps [simp del]

section \<open>\<open>JSON.stringify\<close> on strings\<close>

text \<open>
  \<open>JSON.stringify\<close> quotes a string as ECMA-262's QuoteJSONString does: the
  seven short escapes, \<open>\uXXXX\<close> for the other control characters and for a surrogate
  that is not part of a pair, and every other code unit as it is.
\<close>

definition hexdigit :: "16 word \<Rightarrow> 16 word" where
  "hexdigit d = (if d < 10 then 0x30 + d else 0x57 + d)"

definition unicode_escape :: "16 word \<Rightarrow> jsstring" where
  "unicode_escape c =
     [0x5C, 0x75,
      hexdigit (drop_bit 12 c), hexdigit (take_bit 4 (drop_bit 8 c)),
      hexdigit (take_bit 4 (drop_bit 4 c)), hexdigit (take_bit 4 c)]"

definition is_lead :: "16 word \<Rightarrow> bool" where
  "is_lead c = (0xD800 \<le> c \<and> c \<le> 0xDBFF)"

definition is_trail :: "16 word \<Rightarrow> bool" where
  "is_trail c = (0xDC00 \<le> c \<and> c \<le> 0xDFFF)"

definition quote_unit :: "16 word \<Rightarrow> jsstring" where
  "quote_unit c =
     (if c = 0x08 then [0x5C, 0x62]
      else if c = 0x09 then [0x5C, 0x74]
      else if c = 0x0A then [0x5C, 0x6E]
      else if c = 0x0C then [0x5C, 0x66]
      else if c = 0x0D then [0x5C, 0x72]
      else if c = 0x22 then [0x5C, 0x22]
      else if c = 0x5C then [0x5C, 0x5C]
      else if c < 0x20 \<or> is_lead c \<or> is_trail c then unicode_escape c
      else [c])"

fun quote_units :: "jsstring \<Rightarrow> jsstring" where
  "quote_units [] = []"
| "quote_units [c] = quote_unit c"
| "quote_units (c # d # ds) =
     (if is_lead c \<and> is_trail d then c # d # quote_units ds
      else quote_unit c @ quote_units (d # ds))"

definition quote :: "jsstring \<Rightarrow> jsstring" where
  "quote s = 0x22 # quote_units s @ [0x22]"

section \<open>The session consolidator (quick-smart-sessions.js)\<close>

text \<open>
  The files under \<open>$HOME/.claude/projects\<close>: a project name (the name of a child
  directory, a single path segment) is mapped to the entries of that directory, each a
  file name with the file's text, in the order \<open>readdirSync\<close> lists them; a name with
  no directory is mapped to \<open>None\<close>. The path \<open>path.join(projectPath, name)\<close> is the
  entry \<open>name\<close> of the project's directory. Reading and writing succeed.
\<close>

type_synonym directory = "(jsstring \<times> jsstring) list"
type_synonym projects = "jsstring \<rightharpoonup> directory"

definition readdirSync :: "directory \<Rightarrow> jsstring list" where
  "readdirSync dir = map fst dir"

text \<open>\<open>fs.writeFileSync\<close> replaces the text of an existing file and creates a missing one.\<close>

fun writeFileSync :: "jsstring \<Rightarrow> jsstring \<Rightarrow> directory \<Rightarrow> directory" where
  "writeFileSync name text [] = [(name, text)]"
| "writeFileSync name text ((n, t) # dir) =
     (if n = name then (name, text) # dir else (n, t) # writeFileSync name text dir)"

definition readFileSync :: "directory \<Rightarrow> jsstring \<Rightarrow> jsstring option" where
  "readFileSync dir name = map_of dir name"

record smart_start_session =
  session_type :: jsstring
  project :: jsstring
  generated_at :: jsstring
  consolidated_sessions :: nat
  version :: jsstring
  generation_method :: jsstring

record message =
  role :: jsstring
  content :: jsstring
  timestamp :: jsstring

text \<open>
  \<open>JSON.stringify\<close> of the two object shapes, keys in the order of the object literals.
  The count is an array length, printed in decimal.
\<close>

definition stringify_session :: "smart_start_session \<Rightarrow> jsstring" where
  "stringify_session h =
     js ''{'' @ quote (js ''type'') @ js '':'' @ quote (session_type h) @
     js '','' @ quote (js ''project'') @ js '':'' @ quote (project h) @
     js '','' @ quote (js ''generated_at'') @ js '':'' @ quote (generated_at h) @
     js '','' @ quote (js ''consolidated_sessions'') @ js '':'' @
       decimal (consolidated_sessions h) @
     js '','' @ quote (js ''version'') @ js '':'' @ quote (version h) @
     js '','' @ quote (js ''generation_method'') @ js '':'' @ quote (generation_method h) @
     js ''}''"

definition stringify_message :: "message \<Rightarrow> jsstring" where
  "stringify_message m =
     js ''{'' @ quote (js ''role'') @ js '':'' @ quote (role m) @
     js '','' @ quote (js ''content'') @ js '':'' @ quote (content m) @
     js '','' @ quote (js ''timestamp'') @ js '':'' @ quote (timestamp m) @
     js ''}''"

text \<open>
  \<open>generateSmartContent\<close> reads the clock three times (\<open>new Date().toISOString()\<close>);
  \<open>clock k\<close> is the text of the \<open>k\<close>-th reading.
\<close>

definition smartSession :: "jsstring \<Rightarrow> jsstring list \<Rightarrow> (nat \<Rightarrow> jsstring) \<Rightarrow> smart_start_session" where
  "smartSession projectName sessionFiles clock =
     \<lparr> session_type = js ''smart_start_session'',
       project = projectName,
       generated_at = clock 0,
       consolidated_sessions = length sessionFiles,
       version = js ''1.0.0'',
       generation_method = js ''quick_consolidation'' \<rparr>"

definition contextMessage :: "jsstring \<Rightarrow> jsstring list \<Rightarrow> (nat \<Rightarrow> jsstring) \<Rightarrow> message" where
  "contextMessage projectName sessionFiles clock =
   \<lparr> role = js ''assistant'',
     content =
     js ''## '' @ [0xD83E, 0xDDE0] @ js '' Smart Session Context for '' @ projectName @ [LF] @
     [LF] @ js ''**Project Intelligence:** Synthesized from '' @
     decimal (length sessionFiles) @ js '' previous sessions'' @ [LF] @ [LF] @ js ''### '' @
     [0xD83D, 0xDCCA] @ js '' Project Overview'' @ [LF] @
     js ''This is your consolidated smart session for **'' @ projectName @
     js ''**. Based on '' @ decimal (length sessionFiles) @
     js '' previous work sessions, this project appears to be an active area of focus.'' @
     [LF] @ [LF] @ js ''### '' @ [0xD83D, 0xDE80] @ js '' Ready to Continue'' @ [LF] @
     js ''Your previous work on **'' @ projectName @
     js ''** is available for context. The system has consolidated your session history and is ready to assist with continued work on this project.'' @
     [LF] @ [LF] @ js ''### '' @ [0xD83D, 0xDCA1] @ js '' Session History Available'' @ [LF] @
     js ''- **Total Sessions**: '' @ decimal (length sessionFiles) @ [LF] @
     js ''- **Latest Activity**: Recent work detected'' @ [LF] @
     js ''- **Context Preserved**: Previous decisions and patterns maintained'' @ [LF] @
     [LF] @ js ''**Ready to work on '' @ projectName @ js ''!** '' @ [0xD83C, 0xDFAF],
     timestamp = clock 1 \<rparr>"

definition suggestions :: "jsstring \<Rightarrow> jsstring list \<Rightarrow> (nat \<Rightarrow> jsstring) \<Rightarrow> message" where
  "suggestions projectName sessionFiles clock =
   \<lparr> role = js ''system'',
     content =
     js ''## '' @ [0xD83D, 0xDD27] @ js '' Quick Start Suggestions for '' @ projectName @
     [LF] @ [LF] @ js ''Based on this being an active project with '' @
     decimal (length sessionFiles) @ js '' sessions:'' @ [LF] @ [LF] @
     js ''- Review recent file changes'' @ [LF] @ js ''- Continue previous workflows  '' @
     [LF] @ js ''- Access project-specific resources'' @ [LF] @
     js ''- Build on established patterns'' @ [LF] @ [LF] @
     js ''This smart session provides instant context restoration for efficient project continuation.'',
     timestamp = clock 2 \<rparr>"

definition generateSmartContent :: "jsstring \<Rightarrow> jsstring list \<Rightarrow> (nat \<Rightarrow> jsstring) \<Rightarrow> jsstring" where
  "generateSmartContent projectName sessionFiles clock =
     join_LF
       [stringify_session (smartSession projectName sessionFiles clock),
        stringify_message (contextMessage projectName sessionFiles clock),
        stringify_message (suggestions projectName sessionFiles clock)]"

text \<open>The filter of \<open>generateQuickSmartSession\<close> over the directory listing.\<close>

definition is_session_file :: "jsstring \<Rightarrow> bool" where
  "is_session_file file =
     (endsWith file (js ''.jsonl'') \<and> \<not> includes_js file (js ''SMART-START''))"

definition sessionFiles_of :: "directory \<Rightarrow> jsstring list" where
  "sessionFiles_of dir = filter is_session_file (readdirSync dir)"

definition smartSessionName :: "jsstring \<Rightarrow> jsstring" where
  "smartSessionName projectName = projectName @ js ''-SMART-START.jsonl''"

text \<open>
  What a run reports on the console: the two early returns, or the path written and
  the number of sessions it was based on.
\<close>

datatype outcome = Project_not_found | No_sessions_found | Created jsstring nat

definition generateQuickSmartSession ::
    "jsstring \<Rightarrow> (nat \<Rightarrow> jsstring) \<Rightarrow> projects \<Rightarrow> outcome \<times> projects" where
  "generateQuickSmartSession projectName clock fs =
     (case fs projectName of
        None \<Rightarrow> (Project_not_found, fs)
      | Some dir \<Rightarrow>
          (let sessionFiles = sessionFiles_of dir in
           if length sessionFiles = 0 then (No_sessions_found, fs)
           else
             (let smartSessionContent = generateSmartContent projectName sessionFiles clock;
                  smartSessionPath = smartSessionName projectName
              in (Created smartSessionPath (length sessionFiles),
                  fs(projectName \<mapsto> writeFileSync smartSessionPath smartSessionContent dir)))))"

text \<open>
  The record file of a project as the restoration step looks for it: the entry
  \<open><project>-SMART-START.jsonl\<close> of the project's directory.
\<close>

definition readSmartSessionFile :: "projects \<Rightarrow> jsstring \<Rightarrow> jsstring option" where
  "readSmartSessionFile fs projectName =
     (case fs projectName of
        None \<Rightarrow> None
      | Some dir \<Rightarrow> readFileSync dir (smartSessionName projectName))"

text \<open>
  The header line as a reader of the record takes it, \<open>content.split('\n')[0]\<close>, and the
  reading of a JSON number written with digits only.
\<close>

definition first_line :: "jsstring \<Rightarrow> jsstring" where
  "first_line text = (case split_LF text of [] \<Rightarrow> [] | l # ls \<Rightarrow> l)"

fun read_digits :: "nat \<Rightarrow> jsstring \<Rightarrow> nat option" where
  "read_digits acc [] = Some acc"
| "read_digits acc (c # cs) =
     (if 0x30 \<le> c \<and> c \<le> 0x39 then read_digits (10 * acc + unat (c - 0x30)) cs else None)"

definition read_decimal :: "jsstring \<Rightarrow> nat option" where
  "read_decimal s = (if s = [] then None else read_digits 0 s)"

subsection \<open>A small file system to run the consolidator on\<close>

definition example_dir :: directory where
  "example_dir =
     [(js ''s1.jsonl'', js ''{}''), (js ''notes.txt'', js ''todo''),
      (js ''demo-SMART-START.jsonl'', js ''stale''), (js ''s2.jsonl'', js ''{}'')]"

definition idle_dir :: directory where
  "idle_dir = [(js ''readme.md'', js ''hi''), (js ''idle-SMART-START.jsonl'', js ''old'')]"

definition example_fs :: projects where
  "example_fs = [js ''demo'' \<mapsto> example_dir, js ''idle'' \<mapsto> idle_dir]"

definition example_clock :: "nat \<Rightarrow> jsstring" where
  "example_clock k = js ''2025-01-01T00:00:00.000Z''"

definition later_clock :: "nat \<Rightarrow> jsstring" where
  "later_clock k = js ''2025-01-02T09:30:00.000Z''"

section \<open>The post-tool hook (\<open>postToolAnalysis\<close>)\<close>

text \<open>
  The shell splices the tool's output into the text of the script before node reads
  it. The embedding starts from the values the script's constants are then bound to:
  \<open>toolResult\<close> is the value of the template literal, \<open>result_size\<close> the length of
  the quoted literal, the environment variables are present or not. The files under
  \<open>$HOME/.claude\<close> that the function appends to or rewrites are fields of the state;
  appending and writing succeed. What is printed on the console is left out.
\<close>

datatype error = TypeError | SyntaxError | Failure jsstring

text \<open>
  \<open>String.prototype.trim\<close> removes ECMA-262's WhiteSpace and LineTerminator code
  units from both ends.
\<close>

definition is_space :: "16 word \<Rightarrow> bool" where
  "is_space c =
     ((0x09 \<le> c \<and> c \<le> 0x0D) \<or> c = 0x20 \<or> c = 0xA0 \<or> c = 0x1680 \<or>
      (0x2000 \<le> c \<and> c \<le> 0x200A) \<or> c = 0x2028 \<or> c = 0x2029 \<or> c = 0x202F \<or>
      c = 0x205F \<or> c = 0x3000 \<or> c = 0xFEFF)"

definition trim :: "jsstring \<Rightarrow> jsstring" where
  "trim s = rev (dropWhile is_space (rev (dropWhile is_space s)))"

text \<open>
  \<open>String.prototype.toLowerCase\<close> follows the Unicode case mappings and is an argument
  of the model, named \<open>toLowerCase\<close>. On text without upper-case letters outside ASCII it
  is the function below.
\<close>

definition ascii_toLowerCase :: "jsstring \<Rightarrow> jsstring" where
  "ascii_toLowerCase s = map (\<lambda>c. if 0x41 \<le> c \<and> c \<le> 0x5A then c + 0x20 else c) s"

text \<open>The table \<open>projectKeywords\<close>, in the order \<open>Object.entries\<close> lists it.\<close>

definition projectKeywords :: "(jsstring \<times> jsstring list) list" where
  "projectKeywords =
     [(js ''Arias-v-Bianchi'',
         [js ''arias'', js ''bianchi'', js ''legal'', js ''court'', js ''evidence'', js ''motion'']),
      (js ''ChittyOS-Core'', [js ''chittyos'', js ''mcp'', js ''server'', js ''canon'']),
      (js ''ChittyFinance'',
         [js ''finance'', js ''invoice'', js ''payment'', js ''accounting'', js ''money'']),
      (js ''ChiCo-Properties'',
         [js ''property'', js ''rental'', js ''tenant'', js ''lease'', js ''chicago'']),
      (js ''IT-CAN-BE-LLC'', [js ''wyoming'', js ''llc'', js ''corporate'', js ''entity''])]"

text \<open>
  An element of \<open>projectMatches\<close>. The confidence is the quotient of two small counts;
  it is kept as an exact fraction. The only use made of it, the comparison with 0.3,
  has the same outcome on the doubles: no quotient \<open>m / n\<close> with \<open>m \<le> n \<le> 6\<close>
  lies next to 0.3.
\<close>

record match =
  m_project :: jsstring
  matches :: nat
  confidence :: rat

definition matchCount :: "jsstring \<Rightarrow> jsstring list \<Rightarrow> nat" where
  "matchCount lowerResult keywords =
     length (filter (\<lambda>keyword. includes_js lowerResult keyword) keywords)"

text \<open>The \<open>for\<close> loop over the entries of the table, pushing onto \<open>projectMatches\<close>.\<close>

fun scoreProjects :: "jsstring \<Rightarrow> (jsstring \<times> jsstring list) list \<Rightarrow> match list" where
  "scoreProjects lowerResult [] = []"
| "scoreProjects lowerResult ((name, keywords) # entries) =
     (if matchCount lowerResult keywords > 0
      then \<lparr> m_project = name,
             matches = matchCount lowerResult keywords,
             confidence = of_nat (matchCount lowerResult keywords) / of_nat (length keywords) \<rparr>
           # scoreProjects lowerResult entries
      else scoreProjects lowerResult entries)"

definition projectMatches :: "(jsstring \<Rightarrow> jsstring) \<Rightarrow> jsstring \<Rightarrow> match list" where
  "projectMatches toLowerCase toolResult = scoreProjects (toLowerCase toolResult) projectKeywords"

definition strongMatches :: "match list \<Rightarrow> match list" where
  "strongMatches ms = filter (\<lambda>m. confidence m > 3 / 10) ms"

text \<open>
  The block guarded by \<open>toolResult.length > 100\<close>: \<open>None\<close> when it is skipped, otherwise
  the scores it computed and the suggestion it logs, if any.
\<close>

definition keywordAnalysis ::
    "(jsstring \<Rightarrow> jsstring) \<Rightarrow> jsstring \<Rightarrow> jsstring \<Rightarrow> (match list \<times> match option) option" where
  "keywordAnalysis toLowerCase toolResult currentProject =
     (if length toolResult > 100 then
        (let ms = projectMatches toLowerCase toolResult in
         case strongMatches ms of
           [] \<Rightarrow> Some (ms, None)
         | suggestion # _ \<Rightarrow>
             if m_project suggestion \<noteq> currentProject then Some (ms, Some suggestion)
             else Some (ms, None))
      else None)"

definition suggestion_of ::
    "(jsstring \<Rightarrow> jsstring) \<Rightarrow> jsstring \<Rightarrow> jsstring \<Rightarrow> match option" where
  "suggestion_of toLowerCase toolResult currentProject =
     (case keywordAnalysis toLowerCase toolResult currentProject of
        None \<Rightarrow> None
      | Some (ms, s) \<Rightarrow> s)"

subsection \<open>The statistics document\<close>

text \<open>
  \<open>project-stats.json\<close> as \<open>JSON.parse\<close> returns it and as \<open>JSON.stringify\<close> writes it:
  an object whose own properties are the entries, one for each project name. The order
  of the properties is not part of the model. An array of an entry holds strings and
  \<open>null\<close>; in memory it can also hold \<open>undefined\<close>, the value of an environment
  variable that is not set, which \<open>JSON.stringify\<close> writes as \<open>null\<close>.
\<close>

datatype json_elem = Str jsstring | Null

datatype jsval = Val json_elem | Undefined

definition written :: "jsval \<Rightarrow> json_elem" where
  "written v = (case v of Val x \<Rightarrow> x | Undefined \<Rightarrow> Null)"

text \<open>
  The counter of an entry in the document: a non-negative integer that a double holds,
  \<open>null\<close>, or no counter.
\<close>

datatype json_number = Number nat | Null_number | No_number

text \<open>
  An entry. An array the document lacks is \<open>None\<close>; one it has is an array.
\<close>

record project_stats =
  tool_uses :: json_number
  last_used :: "jsstring option"
  directories :: "json_elem list option"
  agents_used :: "json_elem list option"

type_synonym stats = "(jsstring, project_stats) fmap"

datatype stats_file = Missing | Unparsable | Parsed stats

text \<open>The first block: \<open>{}\<close> unless the file exists and parses.\<close>

definition load_stats :: "stats_file \<Rightarrow> stats" where
  "load_stats f = (case f of Parsed s \<Rightarrow> s | _ \<Rightarrow> fmempty)"

text \<open>
  \<open>stats[currentProject]\<close> reads an own property, or else one of the properties every
  object inherits from \<open>Object.prototype\<close>, all of them objects and so truthy.
\<close>

definition Object_prototype_names :: "jsstring list" where
  "Object_prototype_names =
     [js ''constructor'', js ''__defineGetter__'', js ''__defineSetter__'',
      js ''hasOwnProperty'', js ''__lookupGetter__'', js ''__lookupSetter__'',
      js ''isPrototypeOf'', js ''propertyIsEnumerable'', js ''toString'', js ''valueOf'',
      js ''__proto__'', js ''toLocaleString'']"

datatype property = Own project_stats | Inherited | No_property

definition get_property :: "stats \<Rightarrow> jsstring \<Rightarrow> property" where
  "get_property stats name =
     (case fmlookup stats name of
        Some e \<Rightarrow> Own e
      | None \<Rightarrow> if name \<in> set Object_prototype_names then Inherited else No_property)"

text \<open>
  \<open>n + 1\<close> on doubles, for a non-negative integer \<open>n\<close> that a double holds: exact below
  \<open>2 ^ 53\<close>; from there on the doubles are two or more apart and the sum is rounded to
  the nearest one, to the even one of two that are equally near.
\<close>

definition double_succ :: "nat \<Rightarrow> nat" where
  "double_succ n =
     (if n < 2 ^ 53 then n + 1
      else if n < 2 ^ 54 then (if n mod 4 = 0 then n else n + 2)
      else n)"

text \<open>
  \<open>tool_uses++\<close>: the new value, \<open>None\<close> for \<open>NaN\<close>. \<open>null\<close> counts as 0 and a missing
  counter as \<open>undefined\<close>, which gives \<open>NaN\<close>; \<open>JSON.stringify\<close> writes \<open>NaN\<close> as \<open>null\<close>.
\<close>

definition increment :: "json_number \<Rightarrow> nat option" where
  "increment c =
     (case c of Number n \<Rightarrow> Some (double_succ n) | Null_number \<Rightarrow> Some 1 | No_number \<Rightarrow> None)"

definition written_number :: "nat option \<Rightarrow> json_number" where
  "written_number v = (case v of Some n \<Rightarrow> Number n | None \<Rightarrow> Null_number)"

text \<open>\<open>[...new Set(xs)]\<close>: each value once, in the order of its first occurrence.\<close>

definition Set_add :: "'a \<Rightarrow> 'a list \<Rightarrow> 'a list" where
  "Set_add x s = (if x \<in> set s then s else s @ [x])"

definition Set_of :: "'a list \<Rightarrow> 'a list" where
  "Set_of xs = fold Set_add xs []"

text \<open>\<open>Array.from(a || [])\<close>.\<close>

definition array_of :: "json_elem list option \<Rightarrow> json_elem list" where
  "array_of a = (case a of None \<Rightarrow> [] | Some xs \<Rightarrow> xs)"

definition or_empty :: "json_elem list option \<Rightarrow> jsval list" where
  "or_empty a = map Val (array_of a)"

definition env_value :: "jsstring option \<Rightarrow> jsval" where
  "env_value v = (case v of None \<Rightarrow> Undefined | Some s \<Rightarrow> Val (Str s))"

text \<open>The entry put into the document for a project it does not have.\<close>

definition fresh_entry :: project_stats where
  "fresh_entry =
     \<lparr> tool_uses = Number 0, last_used = None, directories = Some [], agents_used = Some [] \<rparr>"

text \<open>
  The four assignments to \<open>stats[currentProject]\<close>, applied to the object \<open>e\<close> found
  there; the result is given as \<open>JSON.stringify\<close> writes it.
\<close>

definition updated :: "project_stats \<Rightarrow> jsstring \<Rightarrow> jsstring option \<Rightarrow> jsstring \<Rightarrow> project_stats" where
  "updated e currentDir agentName now =
     \<lparr> tool_uses = written_number (increment (tool_uses e)),
       last_used = Some now,
       directories =
         Some (map written (Set_of (or_empty (directories e) @ [Val (Str currentDir)]))),
       agents_used =
         Some (map written (Set_of (or_empty (agents_used e) @ [env_value agentName]))) \<rparr>"

text \<open>An object with none of the four fields, as the inherited ones are.\<close>

definition bare :: project_stats where
  "bare = \<lparr> tool_uses = No_number, last_used = None, directories = None, agents_used = None \<rparr>"

text \<open>
  The loop over \<open>Object.keys(stats)\<close>: \<open>Array.from\<close> throws for an entry that lacks one
  of its arrays, and copies the others.
\<close>

definition arrays_present :: "stats \<Rightarrow> bool" where
  "arrays_present stats =
     fmpred (\<lambda>name e. directories e \<noteq> None \<and> agents_used e \<noteq> None) stats"

definition convert :: "stats \<Rightarrow> error + stats" where
  "convert stats = (if arrays_present stats then Inr stats else Inl TypeError)"

text \<open>
  The object the four assignments work on, after the block that puts the fresh entry
  there: an entry of the document, or \<open>None\<close> when the name of the current project is
  not an own property but an inherited one. No entry is put into the document then,
  and the assignments go to the inherited object.
\<close>

definition current_entry :: "stats \<Rightarrow> jsstring \<Rightarrow> project_stats option" where
  "current_entry stats currentProject =
     (case get_property stats currentProject of
        Own e \<Rightarrow> Some e
      | No_property \<Rightarrow> Some fresh_entry
      | Inherited \<Rightarrow> None)"

text \<open>
  The update of the statistics; the result is the document written. For the inherited
  name \<open>__proto__\<close> the object assigned to is \<open>Object.prototype\<close> itself, and the loop
  then finds its two arrays in every entry that lacks its own.
\<close>

definition updateStats ::
    "jsstring \<Rightarrow> jsstring \<Rightarrow> jsstring option \<Rightarrow> jsstring \<Rightarrow> stats \<Rightarrow> error + stats" where
  "updateStats currentProject currentDir agentName now stats =
     (case current_entry stats currentProject of
        Some e \<Rightarrow>
          convert (fmupd currentProject (updated e currentDir agentName now) stats)
      | None \<Rightarrow>
          if currentProject = js ''__proto__''
          then Inr (fmmap
                 (\<lambda>e. e\<lparr> directories :=
                            (case directories e of
                               None \<Rightarrow> directories (updated bare currentDir agentName now)
                             | Some ds \<Rightarrow> Some ds),
                          agents_used :=
                            (case agents_used e of
                               None \<Rightarrow> agents_used (updated bare currentDir agentName now)
                             | Some ags \<Rightarrow> Some ags) \<rparr>)
                 stats)
          else convert stats)"

subsection \<open>The hook\<close>

record hook_input =
  cwd :: jsstring
  CLAUDE_SESSION_ID :: "jsstring option"
  CLAUDE_TOOL_NAME :: "jsstring option"
  CLAUDE_AGENT_NAME :: "jsstring option"
  result_size :: nat
  toolResult :: jsstring

record activity =
  a_timestamp :: jsstring
  session_id :: "jsstring option"
  tool :: "jsstring option"
  agent :: "jsstring option"
  a_project :: jsstring
  working_directory :: jsstring
  a_result_size :: nat

record suggestion =
  s_timestamp :: jsstring
  current_project :: jsstring
  suggested_project :: jsstring
  s_confidence :: rat
  trigger :: jsstring
  s_tool :: "jsstring option"

record hook_state =
  current_project_file :: "jsstring option"
  project_activity :: "activity list"
  project_suggestions :: "suggestion list"
  project_stats_file :: stats_file

definition currentProject_of :: "hook_state \<Rightarrow> jsstring" where
  "currentProject_of st =
     (case current_project_file st of Some text \<Rightarrow> trim text | None \<Rightarrow> js ''none'')"

text \<open>
  \<open>postToolAnalysis\<close>: the error the outer \<open>catch\<close> caught, if any, and the files as the
  run leaves them. \<open>clock k\<close> is the \<open>k\<close>-th reading of the clock.
\<close>

definition postToolAnalysis ::
    "(jsstring \<Rightarrow> jsstring) \<Rightarrow> (nat \<Rightarrow> jsstring) \<Rightarrow> hook_input \<Rightarrow> hook_state
       \<Rightarrow> error option \<times> hook_state" where
  "postToolAnalysis toLowerCase clock inp st =
     (let currentDir = cwd inp;
          currentProject = currentProject_of st;
          activityLog = \<lparr> a_timestamp = clock 0,
                          session_id = CLAUDE_SESSION_ID inp,
                          tool = CLAUDE_TOOL_NAME inp,
                          agent = CLAUDE_AGENT_NAME inp,
                          a_project = currentProject,
                          working_directory = currentDir,
                          a_result_size = result_size inp \<rparr>;
          st1 = st\<lparr> project_activity := project_activity st @ [activityLog] \<rparr>;
          logged = suggestion_of toLowerCase (toolResult inp) currentProject;
          st2 = (case logged of
                   None \<Rightarrow> st1
                 | Some m \<Rightarrow>
                     st1\<lparr> project_suggestions := project_suggestions st1 @
                            [\<lparr> s_timestamp = clock 1,
                               current_project = currentProject,
                               suggested_project = m_project m,
                               s_confidence = confidence m,
                               trigger = js ''post_tool_result_analysis'',
                               s_tool = CLAUDE_TOOL_NAME inp \<rparr>] \<rparr>);
          now = clock (if logged = None then 1 else 2)
      in case updateStats currentProject currentDir (CLAUDE_AGENT_NAME inp) now
                (load_stats (project_stats_file st2)) of
           Inl err \<Rightarrow> (Some err, st2)
         | Inr stats \<Rightarrow> (None, st2\<lparr> project_stats_file := Parsed stats \<rparr>))"

subsection \<open>The suggestion rule in the words of the specification\<close>

text \<open>
  The specification's reading of the rule, kept apart from the code above: the
  confidence of a project is the number of its keywords found, divided by the number
  listed; the top score is the greatest one, the first-declared project winning a tie;
  a suggestion is logged when the top score exceeds 0.3 and its project is not the
  current one.
\<close>

definition spec_confidence :: "jsstring \<Rightarrow> jsstring list \<Rightarrow> rat" where
  "spec_confidence lowerResult keywords =
     of_nat (length (filter (\<lambda>k. sublist k lowerResult) keywords)) / of_nat (length keywords)"

fun spec_top :: "jsstring \<Rightarrow> (jsstring \<times> jsstring list) list \<Rightarrow> (jsstring \<times> rat) option" where
  "spec_top lowerResult [] = None"
| "spec_top lowerResult ((name, keywords) # entries) =
     (case spec_top lowerResult entries of
        None \<Rightarrow> Some (name, spec_confidence lowerResult keywords)
      | Some (other, score) \<Rightarrow>
          if spec_confidence lowerResult keywords < score then Some (other, score)
          else Some (name, spec_confidence lowerResult keywords))"

definition spec_logs_suggestion ::
    "(jsstring \<Rightarrow> jsstring) \<Rightarrow> jsstring \<Rightarrow> jsstring \<Rightarrow> bool" where
  "spec_logs_suggestion toLowerCase result currentProject =
     (case spec_top (toLowerCase result) projectKeywords of
        None \<Rightarrow> False
      | Some (name, score) \<Rightarrow> 3 / 10 < score \<and> name \<noteq> currentProject)"

text \<open>
  The first project, in the order of the table, whose quotient of keywords found
  exceeds 0.3, with its keywords.
\<close>

definition first_over_threshold ::
    "(jsstring \<Rightarrow> jsstring) \<Rightarrow> jsstring \<Rightarrow> (jsstring \<times> jsstring list) option" where
  "first_over_threshold toLowerCase result =
     find (\<lambda>(name, keywords).
             3 / 10 < (of_nat (matchCount (toLowerCase result) keywords) / of_nat (length keywords) :: rat))
       projectKeywords"

subsection \<open>Inputs to run the hook on\<close>

definition deploy_result :: jsstring where
  "deploy_result =
     js ''chittyos mcp server canon: the deploy finished cleanly; next on the list is arias v bianchi, exhibits due on friday''"

definition filing_result :: jsstring where
  "filing_result =
     js ''Filed the motion with the court clerk; the Arias v. Bianchi evidence folder and the legal memo went out with it today.''"

definition short_result :: jsstring where
  "short_result = js ''arias bianchi legal court evidence motion''"

definition example_input :: "jsstring \<Rightarrow> hook_input" where
  "example_input result =
     \<lparr> cwd = js ''/work/core'',
       CLAUDE_SESSION_ID = Some (js ''1700000000''),
       CLAUDE_TOOL_NAME = Some (js ''Bash''),
       CLAUDE_AGENT_NAME = None,
       result_size = length result,
       toolResult = result \<rparr>"

definition core_state :: hook_state where
  "core_state =
     \<lparr> current_project_file = Some (js ''ChittyOS-Core'' @ [LF]),
       project_activity = [],
       project_suggestions = [],
       project_stats_file =
         Parsed (fmupd (js ''ChittyOS-Core'')
                   \<lparr> tool_uses = Number 3,
                     last_used = Some (js ''2024-12-31T23:00:00.000Z''),
                     directories = Some [Str (js ''/work/core'')],
                     agents_used = Some [Null] \<rparr>
                   fmempty) \<rparr>"



text \<open>A document whose counter has reached \<open>2 ^ 53\<close>.\<close>

definition saturated_state :: hook_state where
  "saturated_state =
     \<lparr> current_project_file = Some (js ''ChittyOS-Core''),
       project_activity = [],
       project_suggestions = [],
       project_stats_file =
         Parsed (fmupd (js ''ChittyOS-Core'')
                   \<lparr> tool_uses = Number (2 ^ 53),
                     last_used = None,
                     directories = Some [],
                     agents_used = Some [] \<rparr>
                   fmempty) \<rparr>"

section \<open>The session restorer (\<open>startSmartSession\<close>)\<close>

text \<open>
  \<open>JSON.parse\<close>, the environment restorer (a module outside this file) and the steps
  that reach outside the process are arguments of the model; each returns its value or
  the error it throws. \<open>displaySmartContext\<close> only prints and is left out.
\<close>

record ('j, 'c, 'e) collaborators =
  JSON_parse :: "jsstring \<Rightarrow> error + 'j"
  connectToChittyChat :: "jsstring \<Rightarrow> error + 'c"
  restoreProjectEnvironment :: "jsstring \<Rightarrow> 'j \<times> 'j option \<times> 'j option \<Rightarrow> error + 'e"
  setupChittyChatIntegration :: "jsstring \<Rightarrow> 'c \<Rightarrow> error + unit"
  createSessionScript :: "jsstring \<Rightarrow> 'e \<Rightarrow> error + unit"
  reportActive :: "jsstring \<Rightarrow> 'e \<Rightarrow> error + unit"

text \<open>\<open>lines[i] ? JSON.parse(lines[i]) : null\<close>: a missing or empty line is not parsed.\<close>

definition parse_line ::
    "(jsstring \<Rightarrow> error + 'j) \<Rightarrow> jsstring list \<Rightarrow> nat \<Rightarrow> error + 'j option" where
  "parse_line parse lines i =
     (if i < length lines \<and> lines ! i \<noteq> [] then
        (case parse (lines ! i) of Inl err \<Rightarrow> Inl err | Inr v \<Rightarrow> Inr (Some v))
      else Inr None)"

text \<open>
  \<open>loadSmartSession\<close>: \<open>None\<close> is the \<open>null\<close> it returns when the record file does not
  exist or when reading it throws. The value returned otherwise is assembled from the
  three parsed lines, which the model returns as they are.
\<close>

definition loadSmartSession ::
    "(jsstring \<Rightarrow> error + 'j) \<Rightarrow> projects \<Rightarrow> jsstring \<Rightarrow> ('j \<times> 'j option \<times> 'j option) option" where
  "loadSmartSession parse fs projectName =
     (case readSmartSessionFile fs projectName of
        None \<Rightarrow> None
      | Some text \<Rightarrow>
          (case split_LF (trim text) of
             [] \<Rightarrow> None
           | first # rest \<Rightarrow>
               (case parse first of
                  Inl err \<Rightarrow> None
                | Inr sessionData \<Rightarrow>
                    (case parse_line parse (first # rest) 1 of
                       Inl err \<Rightarrow> None
                     | Inr contextLine \<Rightarrow>
                         (case parse_line parse (first # rest) 2 of
                            Inl err \<Rightarrow> None
                          | Inr suggestionsLine \<Rightarrow>
                              Some (sessionData, contextLine, suggestionsLine))))))"

text \<open>The body of the \<open>try\<close> block: the value it returns, or the error it throws.\<close>

definition startSmartSession_try ::
    "('j, 'c, 'e) collaborators \<Rightarrow> projects \<Rightarrow> jsstring \<Rightarrow> error + bool" where
  "startSmartSession_try w fs projectName =
     (case loadSmartSession (JSON_parse w) fs projectName of
        None \<Rightarrow> Inr False
      | Some loaded \<Rightarrow>
          (case connectToChittyChat w projectName of
             Inl err \<Rightarrow> Inl err
           | Inr chittyChatProject \<Rightarrow>
               (case restoreProjectEnvironment w projectName loaded of
                  Inl err \<Rightarrow> Inl err
                | Inr environmentResult \<Rightarrow>
                    (case setupChittyChatIntegration w projectName chittyChatProject of
                       Inl err \<Rightarrow> Inl err
                     | Inr u \<Rightarrow>
                         (case createSessionScript w projectName environmentResult of
                            Inl err \<Rightarrow> Inl err
                          | Inr u \<Rightarrow>
                              (case reportActive w projectName environmentResult of
                                 Inl err \<Rightarrow> Inl err
                               | Inr u \<Rightarrow> Inr True))))))"

text \<open>
  \<open>startSmartSession\<close>: the \<open>try\<close> block under its \<open>catch\<close>, which returns \<open>false\<close>. An
  \<open>Inl\<close> here would be an error that leaves the function.
\<close>

definition startSmartSession ::
    "('j, 'c, 'e) collaborators \<Rightarrow> projects \<Rightarrow> jsstring \<Rightarrow> error + bool" where
  "startSmartSession w fs projectName =
     (case startSmartSession_try w fs projectName of
        Inl err \<Rightarrow> Inr False
      | Inr result \<Rightarrow> Inr result)"

subsection \<open>Collaborators to run the restorer with\<close>

definition failing_restorer :: "(unit, unit, unit) collaborators" where
  "failing_restorer =
     \<lparr> JSON_parse = (\<lambda>text. if text = [] then Inl SyntaxError else Inr ()),
       connectToChittyChat = (\<lambda>name. Inr ()),
       restoreProjectEnvironment = (\<lambda>name session. Inl (Failure (js ''no such directory''))),
       setupChittyChatIntegration = (\<lambda>name p. Inr ()),
       createSessionScript = (\<lambda>name r. Inr ()),
       reportActive = (\<lambda>name r. Inr ()) \<rparr>"

section \<open>Properties of the consolidator\<close>

lemma includes_js_sublist: "includes_js s k \<longleftrightarrow> sublist k s"
  by (induction s) (auto simp: sublist_Cons_right)

lemma includes_js_appendI: "includes_js (a @ k @ b) k"
  by (simp add: includes_js_sublist)

lemma smartSessionName_not_session_file: "\<not> is_session_file (smartSessionName p)"
proof -
  have "smartSessionName p = (p @ js ''-'') @ js ''SMART-START'' @ js ''.jsonl''"
    by (simp add: smartSessionName_def js_def)
  then have "includes_js (smartSessionName p) (js ''SMART-START'')"
    by (simp only: includes_js_appendI)
  then show ?thesis by (simp add: is_session_file_def)
qed

lemma readdirSync_writeFileSync:
  "readdirSync (writeFileSync n c dir) =
     (if n \<in> set (readdirSync dir) then readdirSync dir else readdirSync dir @ [n])"
  by (induction dir) (force simp: readdirSync_def)+

lemma sessionFiles_of_writeFileSync:
  "\<not> is_session_file n \<Longrightarrow> sessionFiles_of (writeFileSync n c dir) = sessionFiles_of dir"
  by (simp add: sessionFiles_of_def readdirSync_writeFileSync)

lemma writeFileSync_twice:
  "writeFileSync n c2 (writeFileSync n c1 dir) = writeFileSync n c2 dir"
  by (induction dir) auto

lemma readFileSync_writeFileSync:
  "readFileSync (writeFileSync n c dir) m = (if m = n then Some c else readFileSync dir m)"
  by (induction dir) (auto simp: readFileSync_def)

lemma LF_notin_decimal: "LF \<notin> set (decimal n)"
proof (induction n rule: decimal.induct)
  case (1 n)
  have d: "LF \<noteq> 0x30 + (of_nat k :: 16 word)" if "k < 10" for k :: nat
  proof -
    from that have "k \<in> {0,1,2,3,4,5,6,7,8,9}" by auto
    then show ?thesis by (auto simp: LF_def)
  qed
  show ?case
  proof (cases "n < 10")
    case True
    then show ?thesis using d[of n] by (subst decimal.simps) simp
  next
    case False
    then show ?thesis using 1 d[of "n mod 10"] by (subst decimal.simps) simp
  qed
qed

lemma word16_lt_16_cases:
  fixes d :: "16 word"
  assumes "d < 16"
  shows "d \<in> {0,1,2,3,4,5,6,7,8,9,10,11,12,13,14,15}"
proof -
  from assms have "unat d < 16" by (simp add: word_less_nat_alt)
  then have "unat d \<in> {0,1,2,3,4,5,6,7,8,9,10,11,12,13,14,15}" by simp arith
  then have "of_nat (unat d) \<in> (of_nat ` {0,1,2,3,4,5,6,7,8,9,10,11,12,13,14,15} :: 16 word set)"
    by (rule imageI)
  then show ?thesis by simp
qed

lemma hexdigit_not_LF: "d < 16 \<Longrightarrow> hexdigit d \<noteq> LF"
  using word16_lt_16_cases[of d] by (auto simp: hexdigit_def LF_def)

lemma drop_bit_12_lt: "drop_bit 12 (c :: 16 word) < 16"
proof -
  have "unat c < 2 ^ 16" using unsigned_less[of c] by simp
  then have "unat c div 2 ^ 12 < 16" by simp
  moreover have "unat (drop_bit 12 c) = unat c div 2 ^ 12"
    by (subst unat_drop_bit_eq) (rule drop_bit_eq_div)
  ultimately show ?thesis by (simp only: word_less_nat_alt) simp
qed

lemma take_bit_4_lt: "take_bit 4 (c :: 16 word) < 16"
proof -
  have "take_bit 4 (unat c) < 2 ^ 4" by (rule take_bit_nat_less_exp)
  then show ?thesis by (simp add: word_less_nat_alt unsigned_take_bit_eq)
qed

lemma LF_notin_unicode_escape: "LF \<notin> set (unicode_escape c)"
  using hexdigit_not_LF[OF drop_bit_12_lt, of c] hexdigit_not_LF[OF take_bit_4_lt, of c]
    hexdigit_not_LF[OF take_bit_4_lt, of "drop_bit 4 c"]
    hexdigit_not_LF[OF take_bit_4_lt, of "drop_bit 8 c"]
  by (auto simp: unicode_escape_def LF_def)

lemma LF_notin_quote_unit: "LF \<notin> set (quote_unit c)"
  using LF_notin_unicode_escape[of c]
  by (auto simp: quote_unit_def LF_def)

lemma LF_not_surrogate: "is_lead c \<Longrightarrow> c \<noteq> LF" "is_trail c \<Longrightarrow> c \<noteq> LF"
  by (auto simp: is_lead_def is_trail_def LF_def)

lemma LF_notin_quote_units: "LF \<notin> set (quote_units s)"
  by (induction s rule: quote_units.induct)
     (auto simp: LF_notin_quote_unit dest: LF_not_surrogate)

lemma LF_notin_quote: "LF \<notin> set (quote s)"
  using LF_notin_quote_units[of s] by (simp add: quote_def LF_def)

lemma LF_notin_stringify_session: "LF \<notin> set (stringify_session h)"
  unfolding stringify_session_def
  by (simp add: LF_notin_quote LF_notin_decimal) (simp add: js_def LF_def)

lemma LF_notin_stringify_message: "LF \<notin> set (stringify_message m)"
  unfolding stringify_message_def
  by (simp add: LF_notin_quote) (simp add: js_def LF_def)

lemma split_LF_no_LF: "LF \<notin> set l \<Longrightarrow> split_LF l = [l]"
  by (induction l) auto

lemma split_LF_append: "LF \<notin> set l \<Longrightarrow> split_LF (l @ LF # r) = l # split_LF r"
  by (induction l) auto

lemma split_LF_generateSmartContent:
  "split_LF (generateSmartContent p files clock) =
     [stringify_session (smartSession p files clock),
      stringify_message (contextMessage p files clock),
      stringify_message (suggestions p files clock)]"
  by (simp add: generateSmartContent_def split_LF_append split_LF_no_LF
      LF_notin_stringify_session LF_notin_stringify_message)


lemma sessionFiles_of_example_dir:
  "sessionFiles_of example_dir = [js ''s1.jsonl'', js ''s2.jsonl'']"
  by (simp add: sessionFiles_of_def readdirSync_def example_dir_def is_session_file_def
      endsWith_def js_def)


lemma example_fs_demo: "example_fs (js ''demo'') = Some example_dir"
  by (simp add: example_fs_def js_def)


lemma generateQuickSmartSession_Some:
  "fs p = Some dir \<Longrightarrow>
   generateQuickSmartSession p clock fs =
     (if sessionFiles_of dir = [] then (No_sessions_found, fs)
      else (Created (smartSessionName p) (length (sessionFiles_of dir)),
            fs(p \<mapsto> writeFileSync (smartSessionName p)
                       (generateSmartContent p (sessionFiles_of dir) clock) dir)))"
  by (simp add: generateQuickSmartSession_def Let_def)

lemma quoted_keys:
  \<open>quote (js ''type'') = js ''"type"''\<close>
  \<open>quote (js ''project'') = js ''"project"''\<close>
  \<open>quote (js ''generated_at'') = js ''"generated_at"''\<close>
  \<open>quote (js ''consolidated_sessions'') = js ''"consolidated_sessions"''\<close>
  \<open>quote (js ''version'') = js ''"version"''\<close>
  \<open>quote (js ''generation_method'') = js ''"generation_method"''\<close>
  \<open>quote (js ''smart_start_session'') = js ''"smart_start_session"''\<close>
  \<open>quote (js ''1.0.0'') = js ''"1.0.0"''\<close>
  \<open>quote (js ''quick_consolidation'') = js ''"quick_consolidation"''\<close>
  by code_simp+

lemma js_append: "js (a @ b) = js a @ js b"
  by (simp add: js_def)

lemma stringify_session_text:
  \<open>stringify_session (smartSession p files clock) =
     js ''{"type":"smart_start_session","project":'' @ quote p @
     js '',"generated_at":'' @ quote (clock 0) @
     js '',"consolidated_sessions":'' @ decimal (length files) @
     js '',"version":"1.0.0","generation_method":"quick_consolidation"}''\<close>
  by (simp add: stringify_session_def smartSession_def quoted_keys) (simp add: js_def)

lemma read_digits_append:
  "read_digits acc (xs @ ys) =
     (case read_digits acc xs of None \<Rightarrow> None | Some a \<Rightarrow> read_digits a ys)"
  by (induction xs arbitrary: acc) auto

lemma read_digit:
  assumes "k < 10"
  shows "read_digits acc [0x30 + of_nat k] = Some (10 * acc + k)"
proof -
  from assms have "k \<in> {0,1,2,3,4,5,6,7,8,9}" by auto
  then show ?thesis by auto
qed

lemma read_digits_decimal: "read_digits 0 (decimal n) = Some n"
proof (induction n rule: decimal.induct)
  case (1 n)
  show ?case
  proof (cases "n < 10")
    case True
    then show ?thesis using read_digit [of n 0] by (subst decimal.simps) simp
  next
    case False
    then have "read_digits 0 (decimal (n div 10)) = Some (n div 10)" by (rule 1)
    moreover have "read_digits (n div 10) [0x30 + of_nat (n mod 10)] =
        Some (10 * (n div 10) + n mod 10)"
      by (rule read_digit) simp
    ultimately show ?thesis using False
      by (subst decimal.simps) (simp add: read_digits_append)
  qed
qed

lemma decimal_not_empty: "decimal n \<noteq> []"
  by (subst decimal.simps) simp

lemma read_decimal_decimal: "read_decimal (decimal n) = Some n"
  by (simp add: read_decimal_def decimal_not_empty read_digits_decimal)

text \<open>
  Claim C1. When the directory of a project lists \<open>N \<ge> 1\<close> session files (names that
  end in \<open>.jsonl\<close> and do not contain \<open>SMART-START\<close>), a run of the consolidator reports
  \<open>N\<close> sessions and leaves a record file whose first line is the header object, given
  here character by character: its field \<open>consolidated_sessions\<close> is the decimal numeral
  of \<open>N\<close>, which reads back as \<open>N\<close>. The header object built in memory has the same count.
\<close>

theorem header_count_equals_session_files:
  assumes "fs p = Some dir" and "length (sessionFiles_of dir) = N" and "1 \<le> N"
  shows \<open>fst (generateQuickSmartSession p clock fs) = Created (smartSessionName p) N \<and>
         map_option first_line
             (readSmartSessionFile (snd (generateQuickSmartSession p clock fs)) p) =
           Some (js ''{"type":"smart_start_session","project":'' @ quote p @
                 js '',"generated_at":'' @ quote (clock 0) @
                 js '',"consolidated_sessions":'' @ decimal N @
                 js '',"version":"1.0.0","generation_method":"quick_consolidation"}'') \<and>
         read_decimal (decimal N) = Some N \<and>
         readSmartSessionFile (snd (generateQuickSmartSession p clock fs)) p =
           Some (generateSmartContent p (sessionFiles_of dir) clock) \<and>
         hd (split_LF (generateSmartContent p (sessionFiles_of dir) clock)) =
           stringify_session (smartSession p (sessionFiles_of dir) clock) \<and>
         consolidated_sessions (smartSession p (sessionFiles_of dir) clock) = N\<close>
proof -
  from assms(2,3) have ne: "sessionFiles_of dir \<noteq> []" by auto
  have written: "readSmartSessionFile (snd (generateQuickSmartSession p clock fs)) p =
      Some (generateSmartContent p (sessionFiles_of dir) clock)"
    using assms ne
    by (simp add: generateQuickSmartSession_Some[of fs p dir] readSmartSessionFile_def
        readFileSync_writeFileSync)
  have line: "first_line (generateSmartContent p (sessionFiles_of dir) clock) =
      stringify_session (smartSession p (sessionFiles_of dir) clock)"
    by (simp add: first_line_def split_LF_generateSmartContent)
  have "fst (generateQuickSmartSession p clock fs) = Created (smartSessionName p) N"
    using assms ne by (simp add: generateQuickSmartSession_Some[of fs p dir])
  moreover have "hd (split_LF (generateSmartContent p (sessionFiles_of dir) clock)) =
      stringify_session (smartSession p (sessionFiles_of dir) clock)"
    by (simp add: split_LF_generateSmartContent)
  moreover have "consolidated_sessions (smartSession p (sessionFiles_of dir) clock) = N"
    using assms(2) by (simp add: smartSession_def)
  ultimately show ?thesis
    using assms(2) written
    by (simp only: option.map line stringify_session_text read_decimal_decimal simp_thms)
qed

theorem header_count_equals_session_files_witness:
  \<open>example_fs (js ''demo'') = Some example_dir \<and>
   length (sessionFiles_of example_dir) = 2 \<and>
   fst (generateQuickSmartSession (js ''demo'') example_clock example_fs) =
     Created (js ''demo-SMART-START.jsonl'') 2 \<and>
   map_option first_line
       (readSmartSessionFile
          (snd (generateQuickSmartSession (js ''demo'') example_clock example_fs)) (js ''demo'')) =
     Some (js ''{"type":"smart_start_session","project":"demo","generated_at":"2025-01-01T00:00:00.000Z","consolidated_sessions":2,"version":"1.0.0","generation_method":"quick_consolidation"}'') \<and>
   consolidated_sessions
     (smartSession (js ''demo'') (sessionFiles_of example_dir) example_clock) = 2\<close>
proof -
  have a: "example_fs (js ''demo'') = Some example_dir"
    by (rule example_fs_demo)
  have b: "length (sessionFiles_of example_dir) = 2"
    by (simp add: sessionFiles_of_example_dir)
  have c: "(1::nat) \<le> 2" by simp
  have name: "smartSessionName (js ''demo'') = js ''demo-SMART-START.jsonl''"
    by (simp add: smartSessionName_def js_def)
  have header: \<open>js ''{"type":"smart_start_session","project":'' @ quote (js ''demo'') @
                 js '',"generated_at":'' @ quote (example_clock 0) @
                 js '',"consolidated_sessions":'' @ decimal 2 @
                 js '',"version":"1.0.0","generation_method":"quick_consolidation"}'' =
      js ''{"type":"smart_start_session","project":"demo","generated_at":"2025-01-01T00:00:00.000Z","consolidated_sessions":2,"version":"1.0.0","generation_method":"quick_consolidation"}''\<close>
    by code_simp
  note run = header_count_equals_session_files
                [of example_fs "js ''demo''" example_dir 2 example_clock, OF a b c]
  have d: "fst (generateQuickSmartSession (js ''demo'') example_clock example_fs) =
      Created (js ''demo-SMART-START.jsonl'') 2"
    using run [THEN conjunct1] by (simp only: name)
  have e: \<open>map_option first_line
       (readSmartSessionFile
          (snd (generateQuickSmartSession (js ''demo'') example_clock example_fs)) (js ''demo'')) =
     Some (js ''{"type":"smart_start_session","project":"demo","generated_at":"2025-01-01T00:00:00.000Z","consolidated_sessions":2,"version":"1.0.0","generation_method":"quick_consolidation"}'')\<close>
    using run [THEN conjunct2, THEN conjunct1] by (simp only: header)
  have f: "consolidated_sessions
     (smartSession (js ''demo'') (sessionFiles_of example_dir) example_clock) = 2"
    by (rule run [THEN conjunct2, THEN conjunct2, THEN conjunct2, THEN conjunct2, THEN conjunct2])
  show ?thesis
    using a b d e f by (intro conjI)
qed



text \<open>
  Claim C7. After a second run for the same project the record file holds exactly the
  text the second run generated: nothing of the first record is kept, and the files are
  the same as if only the second run had happened.
\<close>

theorem rerun_overwrites_record:
  assumes "fs p = Some dir" and "sessionFiles_of dir \<noteq> []"
  shows "readSmartSessionFile
           (snd (generateQuickSmartSession p clock2
                  (snd (generateQuickSmartSession p clock1 fs)))) p =
           Some (generateSmartContent p (sessionFiles_of dir) clock2) \<and>
         snd (generateQuickSmartSession p clock2
                (snd (generateQuickSmartSession p clock1 fs))) =
           snd (generateQuickSmartSession p clock2 fs)"
  using assms
  by (simp add: generateQuickSmartSession_Some[of fs p dir]
      generateQuickSmartSession_Some[of "fs(p \<mapsto> d)" p d for d]
      sessionFiles_of_writeFileSync smartSessionName_not_session_file
      readSmartSessionFile_def readFileSync_writeFileSync writeFileSync_twice)

theorem rerun_overwrites_record_witness:
  "readSmartSessionFile
     (snd (generateQuickSmartSession (js ''demo'') later_clock
            (snd (generateQuickSmartSession (js ''demo'') example_clock example_fs))))
     (js ''demo'') =
     Some (generateSmartContent (js ''demo'') [js ''s1.jsonl'', js ''s2.jsonl''] later_clock)"
proof -
  have ne: "sessionFiles_of example_dir \<noteq> []"
    by (simp add: sessionFiles_of_example_dir)
  show ?thesis
    using rerun_overwrites_record
            [of example_fs "js ''demo''" example_dir later_clock example_clock,
             OF example_fs_demo ne, THEN conjunct1]
    by (simp only: sessionFiles_of_example_dir)
qed

text \<open>
  Claim C8. No name the filter accepts contains \<open>SMART-START\<close>; the record a run writes
  is therefore not a session file, the session files of the directory are the same
  after the run, and a second run reports the same count as the first.
\<close>

theorem record_never_counted_as_session:
  assumes "fs p = Some dir" and "sessionFiles_of dir \<noteq> []"
  shows "(\<forall>file \<in> set (sessionFiles_of dir). \<not> includes_js file (js ''SMART-START'')) \<and>
         (case snd (generateQuickSmartSession p clock1 fs) p of
            None \<Rightarrow> False
          | Some dir' \<Rightarrow> sessionFiles_of dir' = sessionFiles_of dir) \<and>
         fst (generateQuickSmartSession p clock2
                (snd (generateQuickSmartSession p clock1 fs))) =
           Created (smartSessionName p) (length (sessionFiles_of dir))"
  using assms
  by (simp add: generateQuickSmartSession_Some[of fs p dir]
      generateQuickSmartSession_Some[of "fs(p \<mapsto> d)" p d for d]
      sessionFiles_of_writeFileSync smartSessionName_not_session_file)
     (simp add: sessionFiles_of_def is_session_file_def)

theorem record_never_counted_as_session_witness:
  "fst (generateQuickSmartSession (js ''demo'') later_clock
          (snd (generateQuickSmartSession (js ''demo'') example_clock example_fs))) =
     Created (js ''demo-SMART-START.jsonl'') 2"
proof -
  have ne: "sessionFiles_of example_dir \<noteq> []"
    by (simp add: sessionFiles_of_example_dir)
  have name: "smartSessionName (js ''demo'') = js ''demo-SMART-START.jsonl''"
    by (simp add: smartSessionName_def js_def)
  show ?thesis
    using record_never_counted_as_session
            [of example_fs "js ''demo''" example_dir example_clock later_clock,
             OF example_fs_demo ne, THEN conjunct2, THEN conjunct2]
    by (simp add: name sessionFiles_of_example_dir)
qed

section \<open>Properties of the keyword scoring\<close>

lemma projectKeywords_names_distinct: "distinct (map fst projectKeywords)"
  by (simp add: projectKeywords_def js_def)

lemma projectKeywords_keywords_distinct:
  "(name, keywords) \<in> set projectKeywords \<Longrightarrow> distinct keywords \<and> keywords \<noteq> []"
  by (auto simp: projectKeywords_def js_def)

lemma matchCount_card:
  "distinct keywords \<Longrightarrow>
   matchCount lowerResult keywords = card {k \<in> set keywords. sublist k lowerResult}"
proof -
  assume d: "distinct keywords"
  have "{k \<in> set keywords. sublist k lowerResult} =
        set (filter (\<lambda>k. includes_js lowerResult k) keywords)"
    by (auto simp: includes_js_sublist)
  moreover have "card (set (filter (\<lambda>k. includes_js lowerResult k) keywords)) =
        length (filter (\<lambda>k. includes_js lowerResult k) keywords)"
    using d by (intro distinct_card) simp
  ultimately show ?thesis
    by (simp only: matchCount_def)
qed

lemma find_scoreProjects:
  "distinct (map fst table) \<Longrightarrow> (name, keywords) \<in> set table \<Longrightarrow>
   find (\<lambda>m. m_project m = name) (scoreProjects lowerResult table) =
     (if matchCount lowerResult keywords > 0
      then Some \<lparr> m_project = name, matches = matchCount lowerResult keywords,
                  confidence = of_nat (matchCount lowerResult keywords) / of_nat (length keywords) \<rparr>
      else None)"
proof (induction table)
  case Nil
  then show ?case by simp
next
  case (Cons entry table)
  obtain q kq where entry: "entry = (q, kq)" by (cases entry)
  show ?case
  proof (cases "q = name")
    case True
    with Cons.prems entry have kq: "kq = keywords"
      by (auto simp: image_iff)
    have absent: "find (\<lambda>m. m_project m = name) (scoreProjects lowerResult table) = None"
    proof -
      have "\<And>t. name \<notin> fst ` set t \<Longrightarrow>
              find (\<lambda>m. m_project m = name) (scoreProjects lowerResult t) = None"
      proof -
        fix t show "name \<notin> fst ` set t \<Longrightarrow>
              find (\<lambda>m. m_project m = name) (scoreProjects lowerResult t) = None"
          by (induction t) (auto split: if_splits)
      qed
      moreover from Cons.prems entry True have "name \<notin> fst ` set table" by auto
      ultimately show ?thesis by blast
    qed
    show ?thesis using True kq entry absent by simp
  next
    case False
    with Cons.prems entry have "(name, keywords) \<in> set table" "distinct (map fst table)"
      by auto
    with Cons.IH have "find (\<lambda>m. m_project m = name) (scoreProjects lowerResult table) =
     (if matchCount lowerResult keywords > 0
      then Some \<lparr> m_project = name, matches = matchCount lowerResult keywords,
                  confidence = of_nat (matchCount lowerResult keywords) / of_nat (length keywords) \<rparr>
      else None)" by blast
    then show ?thesis using False entry by simp
  qed
qed

text \<open>
  Claim C3. For every result text and every project of the table, the entry the scoring
  loop pushes for the project carries the number of the project's keywords that are
  substrings of the lower-cased text, and that number divided by the number of keywords
  listed, as its confidence. No entry is pushed exactly when that number, and so the
  quotient, is 0.
\<close>

theorem confidence_is_matched_over_total:
  assumes "(name, keywords) \<in> set projectKeywords"
  shows "(case find (\<lambda>m. m_project m = name) (projectMatches toLowerCase result) of
            Some m \<Rightarrow>
              matches m = card {k \<in> set keywords. sublist k (toLowerCase result)} \<and>
              confidence m =
                of_nat (card {k \<in> set keywords. sublist k (toLowerCase result)}) /
                of_nat (length keywords)
          | None \<Rightarrow>
              of_nat (card {k \<in> set keywords. sublist k (toLowerCase result)}) /
                of_nat (length keywords) = (0 :: rat))"
proof -
  from assms have d: "distinct keywords"
    by (simp add: projectKeywords_keywords_distinct)
  show ?thesis
    using find_scoreProjects [OF projectKeywords_names_distinct assms, of "toLowerCase result"]
    by (simp add: projectMatches_def matchCount_card [OF d])
qed



lemma projectMatches_filing_result:
  "projectMatches ascii_toLowerCase filing_result =
     [\<lparr> m_project = js ''Arias-v-Bianchi'', matches = 6, confidence = 1 \<rparr>]"
  by code_simp

lemma projectMatches_deploy_result:
  "projectMatches ascii_toLowerCase deploy_result =
     [\<lparr> m_project = js ''Arias-v-Bianchi'', matches = 2, confidence = 1 / 3 \<rparr>,
      \<lparr> m_project = js ''ChittyOS-Core'', matches = 4, confidence = 1 \<rparr>]"
  by code_simp


theorem confidence_is_matched_over_total_witness:
  "(js ''Arias-v-Bianchi'',
    [js ''arias'', js ''bianchi'', js ''legal'', js ''court'', js ''evidence'', js ''motion''])
     \<in> set projectKeywords \<and>
   card {k \<in> set [js ''arias'', js ''bianchi'', js ''legal'', js ''court'', js ''evidence'',
                   js ''motion'']. sublist k (ascii_toLowerCase filing_result)} = 6"
proof -
  have a: "(js ''Arias-v-Bianchi'',
      [js ''arias'', js ''bianchi'', js ''legal'', js ''court'', js ''evidence'', js ''motion''])
       \<in> set projectKeywords"
    by (simp add: projectKeywords_def)
  show ?thesis
    using confidence_is_matched_over_total [OF a, of ascii_toLowerCase filing_result] a
    by (simp add: projectMatches_filing_result)
qed

lemma scoreProjects_none:
  "\<forall>(q, kq) \<in> set table. matchCount lowerResult kq = 0 \<Longrightarrow> scoreProjects lowerResult table = []"
  by (induction table) auto

lemma scoreProjects_single:
  "distinct (map fst table) \<Longrightarrow> (name, keywords) \<in> set table \<Longrightarrow>
   0 < matchCount lowerResult keywords \<Longrightarrow>
   \<forall>(q, kq) \<in> set table. q \<noteq> name \<longrightarrow> matchCount lowerResult kq = 0 \<Longrightarrow>
   scoreProjects lowerResult table =
     [\<lparr> m_project = name, matches = matchCount lowerResult keywords,
        confidence = of_nat (matchCount lowerResult keywords) / of_nat (length keywords) \<rparr>]"
proof (induction table)
  case Nil
  then show ?case by simp
next
  case (Cons entry table)
  obtain q kq where entry: "entry = (q, kq)" by (cases entry)
  show ?case
  proof (cases "q = name")
    case True
    with Cons.prems entry have kq: "kq = keywords"
      by (auto simp: image_iff)
    have "\<forall>(q', k') \<in> set table. matchCount lowerResult k' = 0"
    proof (clarify)
      fix q' k' assume mem: "(q', k') \<in> set table"
      from Cons.prems(1) entry True have "name \<notin> fst ` set table" by simp
      with mem have "q' \<noteq> name" by force
      moreover from mem Cons.prems(4) have "q' \<noteq> name \<longrightarrow> matchCount lowerResult k' = 0"
        by auto
      ultimately show "matchCount lowerResult k' = 0" by simp
    qed
    then have "scoreProjects lowerResult table = []" by (rule scoreProjects_none)
    then show ?thesis using True kq entry Cons.prems(3) by simp
  next
    case False
    with Cons.prems entry have zero: "matchCount lowerResult kq = 0" by auto
    from False Cons.prems entry have "scoreProjects lowerResult table =
     [\<lparr> m_project = name, matches = matchCount lowerResult keywords,
        confidence = of_nat (matchCount lowerResult keywords) / of_nat (length keywords) \<rparr>]"
      by (intro Cons.IH) auto
    then show ?thesis using zero entry by simp
  qed
qed

lemma matchCount_all:
  "\<forall>k \<in> set keywords. sublist k lowerResult \<Longrightarrow> matchCount lowerResult keywords = length keywords"
  by (simp add: matchCount_def includes_js_sublist)

lemma matchCount_zero:
  "\<forall>k \<in> set keywords. \<not> sublist k lowerResult \<Longrightarrow> matchCount lowerResult keywords = 0"
  by (simp add: matchCount_def includes_js_sublist)

text \<open>
  Claim C4. When the lower-cased result text contains every keyword of one project of
  the table and no keyword of any other project, the scoring loop yields exactly one
  entry: that project, with confidence 1. The other projects get no entry, their
  quotient being 0.
\<close>

theorem all_keywords_of_one_project:
  assumes "(name, keywords) \<in> set projectKeywords"
    and "\<forall>k \<in> set keywords. sublist k (toLowerCase result)"
    and "\<forall>(other, ks) \<in> set projectKeywords.
           other \<noteq> name \<longrightarrow> (\<forall>k \<in> set ks. \<not> sublist k (toLowerCase result))"
  shows "projectMatches toLowerCase result =
           [\<lparr> m_project = name, matches = length keywords, confidence = 1 \<rparr>] \<and>
         (\<forall>(other, ks) \<in> set projectKeywords.
            other \<noteq> name \<longrightarrow>
              find (\<lambda>m. m_project m = other) (projectMatches toLowerCase result) = None \<and>
              of_nat (matchCount (toLowerCase result) ks) / of_nat (length ks) = (0 :: rat))"
proof -
  from assms(1) have ne: "keywords \<noteq> []"
    by (simp add: projectKeywords_keywords_distinct)
  have full: "matchCount (toLowerCase result) keywords = length keywords"
    using assms(2) by (rule matchCount_all)
  have others: "\<forall>(other, ks) \<in> set projectKeywords.
      other \<noteq> name \<longrightarrow> matchCount (toLowerCase result) ks = 0"
    using assms(3) by (auto intro: matchCount_zero)
  have "scoreProjects (toLowerCase result) projectKeywords =
      [\<lparr> m_project = name, matches = matchCount (toLowerCase result) keywords,
         confidence = of_nat (matchCount (toLowerCase result) keywords) / of_nat (length keywords) \<rparr>]"
    using projectKeywords_names_distinct assms(1) _ others
    by (rule scoreProjects_single) (simp add: full ne)
  then have single: "projectMatches toLowerCase result =
      [\<lparr> m_project = name, matches = length keywords, confidence = 1 \<rparr>]"
    using ne by (simp add: projectMatches_def full)
  show ?thesis
    using single others by auto
qed

lemma ascii_short_result:
  "ascii_toLowerCase short_result = js ''arias bianchi legal court evidence motion''"
  by code_simp

theorem all_keywords_of_one_project_witness:
  "projectMatches ascii_toLowerCase short_result =
     [\<lparr> m_project = js ''Arias-v-Bianchi'', matches = 6, confidence = 1 \<rparr>]"
proof -
  let ?ks = "[js ''arias'', js ''bianchi'', js ''legal'', js ''court'', js ''evidence'', js ''motion'']"
  have a: "(js ''Arias-v-Bianchi'', ?ks) \<in> set projectKeywords"
    by (simp add: projectKeywords_def)
  have b: "\<forall>k \<in> set ?ks. sublist k (ascii_toLowerCase short_result)"
    unfolding ascii_short_result includes_js_sublist [symmetric] by code_simp
  have c: "\<forall>(other, ks) \<in> set projectKeywords.
      other \<noteq> js ''Arias-v-Bianchi'' \<longrightarrow>
        (\<forall>k \<in> set ks. \<not> sublist k (ascii_toLowerCase short_result))"
    unfolding ascii_short_result includes_js_sublist [symmetric] by code_simp
  show ?thesis
    using all_keywords_of_one_project
            [of "js ''Arias-v-Bianchi''" ?ks ascii_toLowerCase short_result, OF a b c]
    by simp
qed

section \<open>Properties of the hook\<close>

lemma strongMatches_scoreProjects:
  "find (\<lambda>(name, keywords). 3 / 10 < (of_nat (matchCount lowerResult keywords) / of_nat (length keywords) :: rat)) table = None
   \<Longrightarrow> strongMatches (scoreProjects lowerResult table) = []"
  by (induction table) (auto simp: strongMatches_def split: if_splits)

lemma strongMatches_scoreProjects_Some:
  "find (\<lambda>(name, keywords). 3 / 10 < (of_nat (matchCount lowerResult keywords) / of_nat (length keywords) :: rat)) table = Some (name, keywords)
   \<Longrightarrow> \<exists>rest. strongMatches (scoreProjects lowerResult table) =
        \<lparr> m_project = name, matches = matchCount lowerResult keywords,
          confidence = of_nat (matchCount lowerResult keywords) / of_nat (length keywords) \<rparr> # rest"
proof (induction table)
  case Nil
  then show ?case by simp
next
  case (Cons entry table)
  obtain q kq where entry: "entry = (q, kq)" by (cases entry)
  show ?case
  proof (cases "3 / 10 < (of_nat (matchCount lowerResult kq) / of_nat (length kq) :: rat)")
    case True
    then have pos: "0 < matchCount lowerResult kq"
      by (cases "matchCount lowerResult kq") auto
    from True Cons.prems entry have "q = name" "kq = keywords" by auto
    then show ?thesis using True pos entry by (simp add: strongMatches_def)
  next
    case False
    with Cons.prems entry have "find (\<lambda>(name, keywords). 3 / 10 < (of_nat (matchCount lowerResult keywords) / of_nat (length keywords) :: rat)) table = Some (name, keywords)"
      by simp
    from Cons.IH [OF this] obtain rest where
      "strongMatches (scoreProjects lowerResult table) =
        \<lparr> m_project = name, matches = matchCount lowerResult keywords,
          confidence = of_nat (matchCount lowerResult keywords) / of_nat (length keywords) \<rparr> # rest"
      by blast
    then show ?thesis using False entry by (simp add: strongMatches_def)
  qed
qed

lemma suggestion_of_first_over_threshold:
  "suggestion_of toLowerCase result currentProject =
     (if length result > 100 then
        (case first_over_threshold toLowerCase result of
           None \<Rightarrow> None
         | Some (name, keywords) \<Rightarrow>
             if name \<noteq> currentProject
             then Some \<lparr> m_project = name,
                         matches = matchCount (toLowerCase result) keywords,
                         confidence = of_nat (matchCount (toLowerCase result) keywords) /
                                      of_nat (length keywords) \<rparr>
             else None)
      else None)"
proof (cases "first_over_threshold toLowerCase result")
  case None
  then have "strongMatches (projectMatches toLowerCase result) = []"
    unfolding first_over_threshold_def projectMatches_def by (rule strongMatches_scoreProjects)
  then show ?thesis using None
    by (simp add: suggestion_of_def keywordAnalysis_def Let_def)
next
  case (Some entry)
  obtain name kws where entry: "entry = (name, kws)" by (cases entry)
  from Some entry obtain rest where
    "strongMatches (projectMatches toLowerCase result) =
        \<lparr> m_project = name, matches = matchCount (toLowerCase result) kws,
          confidence = of_nat (matchCount (toLowerCase result) kws) / of_nat (length kws) \<rparr> # rest"
    unfolding first_over_threshold_def projectMatches_def
    using strongMatches_scoreProjects_Some by blast
  then show ?thesis using Some entry
    by (simp add: suggestion_of_def keywordAnalysis_def Let_def)
qed

lemma project_suggestions_postToolAnalysis:
  "project_suggestions (snd (postToolAnalysis toLowerCase clock inp st)) =
     project_suggestions st @
       (case suggestion_of toLowerCase (toolResult inp) (currentProject_of st) of
          None \<Rightarrow> []
        | Some m \<Rightarrow>
            [\<lparr> s_timestamp = clock 1,
               current_project = currentProject_of st,
               suggested_project = m_project m,
               s_confidence = confidence m,
               trigger = js ''post_tool_result_analysis'',
               s_tool = CLAUDE_TOOL_NAME inp \<rparr>])"
  by (simp add: postToolAnalysis_def Let_def split: option.splits sum.splits)

text \<open>
  Claim C2, as amended. A run appends a suggestion to the log exactly when the result
  text is longer than 100 code units, some project's quotient exceeds 0.3, and the
  first such project in the order of the table is not the current project; the
  suggestion names that first project and carries its quotient. Among several projects
  over the threshold, tied or not, the first-declared one is named.
\<close>

theorem suggestion_names_first_project_over_threshold:
  "project_suggestions (snd (postToolAnalysis toLowerCase clock inp st)) =
     project_suggestions st @
       (if length (toolResult inp) > 100 then
          (case first_over_threshold toLowerCase (toolResult inp) of
             None \<Rightarrow> []
           | Some (name, keywords) \<Rightarrow>
               if name \<noteq> currentProject_of st
               then [\<lparr> s_timestamp = clock 1,
                       current_project = currentProject_of st,
                       suggested_project = name,
                       s_confidence = of_nat (matchCount (toLowerCase (toolResult inp)) keywords) /
                                      of_nat (length keywords),
                       trigger = js ''post_tool_result_analysis'',
                       s_tool = CLAUDE_TOOL_NAME inp \<rparr>]
               else [])
        else [])"
  by (simp add: project_suggestions_postToolAnalysis suggestion_of_first_over_threshold
      split: option.splits)

theorem suggestion_names_first_project_over_threshold_witness:
  "map (\<lambda>s. (suggested_project s, s_confidence s))
     (project_suggestions
        (snd (postToolAnalysis ascii_toLowerCase example_clock (example_input filing_result)
                core_state))) = [(js ''Arias-v-Bianchi'', 1)]"
proof -
  have cur: "currentProject_of core_state = js ''ChittyOS-Core''"
    by code_simp
  have first: "first_over_threshold ascii_toLowerCase filing_result =
      Some (js ''Arias-v-Bianchi'',
        [js ''arias'', js ''bianchi'', js ''legal'', js ''court'', js ''evidence'', js ''motion''])"
    by code_simp
  have full: "matchCount (ascii_toLowerCase filing_result)
      [js ''arias'', js ''bianchi'', js ''legal'', js ''court'', js ''evidence'', js ''motion''] = 6"
    by code_simp
  have len: "length (toolResult (example_input filing_result)) > 100"
    by code_simp
  have differ: "js ''Arias-v-Bianchi'' \<noteq> js ''ChittyOS-Core''"
    by (simp add: js_def)
  have res: "toolResult (example_input filing_result) = filing_result"
    by (simp add: example_input_def)
  have st: "project_suggestions core_state = []"
    by (simp add: core_state_def)
  show ?thesis
    using suggestion_names_first_project_over_threshold
            [of ascii_toLowerCase example_clock "example_input filing_result" core_state]
          len differ
    by (simp add: res first cur st full)
qed

text \<open>
  Claim C2 as stated fails. With \<open>ChittyOS-Core\<close> current, a text with two of the six
  Arias-v-Bianchi keywords and all four ChittyOS-Core keywords has ChittyOS-Core as its
  top-scoring project, so the stated rule logs nothing; the hook logs a suggestion for
  Arias-v-Bianchi, the first project over the threshold. And a text of 41 code units
  with all six Arias-v-Bianchi keywords meets the stated rule, yet nothing is logged.
\<close>

theorem top_score_rule_counterexample:
  "currentProject_of core_state = js ''ChittyOS-Core'' \<and>
   spec_top (ascii_toLowerCase deploy_result) projectKeywords = Some (js ''ChittyOS-Core'', 1) \<and>
   \<not> spec_logs_suggestion ascii_toLowerCase deploy_result (currentProject_of core_state) \<and>
   map suggested_project
     (project_suggestions
        (snd (postToolAnalysis ascii_toLowerCase example_clock (example_input deploy_result)
                core_state))) = [js ''Arias-v-Bianchi''] \<and>
   spec_logs_suggestion ascii_toLowerCase short_result (currentProject_of core_state) \<and>
   project_suggestions
     (snd (postToolAnalysis ascii_toLowerCase example_clock (example_input short_result)
             core_state)) = []"
proof -
  have cur: "currentProject_of core_state = js ''ChittyOS-Core''"
    by code_simp
  have short_rule: "spec_logs_suggestion ascii_toLowerCase short_result (js ''ChittyOS-Core'')"
    by code_simp
  have short_len: "\<not> length (toolResult (example_input short_result)) > 100"
    by code_simp
  have top: "spec_top (ascii_toLowerCase deploy_result) projectKeywords =
      Some (js ''ChittyOS-Core'', 1)"
    by code_simp
  have first: "first_over_threshold ascii_toLowerCase deploy_result =
      Some (js ''Arias-v-Bianchi'',
        [js ''arias'', js ''bianchi'', js ''legal'', js ''court'', js ''evidence'', js ''motion''])"
    by code_simp
  have len: "length (toolResult (example_input deploy_result)) > 100"
    by code_simp
  have differ: "js ''Arias-v-Bianchi'' \<noteq> js ''ChittyOS-Core''"
    by (simp add: js_def)
  have res: "toolResult (example_input deploy_result) = deploy_result"
    by (simp add: example_input_def)
  have st: "project_suggestions core_state = []"
    by (simp add: core_state_def)
  have "map suggested_project
     (project_suggestions
        (snd (postToolAnalysis ascii_toLowerCase example_clock (example_input deploy_result)
                core_state))) = [js ''Arias-v-Bianchi'']"
    using len differ
    by (simp add: project_suggestions_postToolAnalysis suggestion_of_first_over_threshold
        res first cur st)
  moreover have "\<not> spec_logs_suggestion ascii_toLowerCase deploy_result
      (currentProject_of core_state)"
    by (simp add: spec_logs_suggestion_def top cur)
  moreover have "project_suggestions
     (snd (postToolAnalysis ascii_toLowerCase example_clock (example_input short_result)
             core_state)) = []"
    using short_len
    by (simp add: project_suggestions_postToolAnalysis suggestion_of_first_over_threshold st)
  ultimately show ?thesis using cur top short_rule by simp
qed

text \<open>
  Claim C9. For a result text of at most 100 code units the keyword block is skipped:
  no scores are computed and the suggestion log is left as it was, whatever keywords
  the text contains.
\<close>

theorem short_result_is_never_analysed:
  assumes "length (toolResult inp) \<le> 100"
  shows "keywordAnalysis toLowerCase (toolResult inp) (currentProject_of st) = None \<and>
         project_suggestions (snd (postToolAnalysis toLowerCase clock inp st)) =
           project_suggestions st"
  using assms
  by (simp add: project_suggestions_postToolAnalysis suggestion_of_def keywordAnalysis_def)

theorem short_result_is_never_analysed_witness:
  "length (toolResult (example_input short_result)) \<le> 100 \<and>
   project_suggestions
     (snd (postToolAnalysis ascii_toLowerCase example_clock (example_input short_result)
             core_state)) = []"
proof -
  have a: "length (toolResult (example_input short_result)) \<le> 100"
    by code_simp
  have st: "project_suggestions core_state = []"
    by (simp add: core_state_def)
  show ?thesis
    using short_result_is_never_analysed
            [of "example_input short_result" ascii_toLowerCase core_state example_clock, OF a] a
    by (simp add: st)
qed
















lemma saturated_entry:
  "current_entry (load_stats (project_stats_file saturated_state)) (js ''ChittyOS-Core'') =
     Some \<lparr> tool_uses = Number (2 ^ 53), last_used = None,
            directories = Some [], agents_used = Some [] \<rparr>"
  by (simp add: current_entry_def get_property_def load_stats_def saturated_state_def)



lemma arrays_present_updated:
  "arrays_present (fmupd name (updated e d a t) (fmupd name e' fmempty))"
  by (auto simp: arrays_present_def fmpred_iff updated_def split: if_splits)







section \<open>Properties of the restorer\<close>

text \<open>
  Claim C5. \<open>startSmartSession\<close> always returns a value. It returns \<open>false\<close> when the
  project has no record file, and whenever the \<open>try\<close> block throws, in particular when
  one of the restoration steps throws.
\<close>

theorem restoration_fails_gracefully:
  "(readSmartSessionFile fs projectName = None \<longrightarrow>
      startSmartSession w fs projectName = Inr False) \<and>
   (\<forall>err. startSmartSession_try w fs projectName = Inl err \<longrightarrow>
      startSmartSession w fs projectName = Inr False) \<and>
   (\<forall>loaded. loadSmartSession (JSON_parse w) fs projectName = Some loaded \<longrightarrow>
      ((\<exists>err. connectToChittyChat w projectName = Inl err) \<or>
       (\<exists>err. restoreProjectEnvironment w projectName loaded = Inl err) \<or>
       (\<exists>c err. connectToChittyChat w projectName = Inr c \<and>
                 setupChittyChatIntegration w projectName c = Inl err) \<or>
       (\<exists>r err. restoreProjectEnvironment w projectName loaded = Inr r \<and>
                 (createSessionScript w projectName r = Inl err \<or>
                  reportActive w projectName r = Inl err))) \<longrightarrow>
      startSmartSession w fs projectName = Inr False) \<and>
   (\<exists>result. startSmartSession w fs projectName = Inr result)"
proof (intro conjI allI impI)
  assume "readSmartSessionFile fs projectName = None"
  then show "startSmartSession w fs projectName = Inr False"
    by (simp add: startSmartSession_def startSmartSession_try_def loadSmartSession_def)
next
  fix err assume "startSmartSession_try w fs projectName = Inl err"
  then show "startSmartSession w fs projectName = Inr False"
    by (simp add: startSmartSession_def)
next
  fix loaded
  assume "loadSmartSession (JSON_parse w) fs projectName = Some loaded"
    and "(\<exists>err. connectToChittyChat w projectName = Inl err) \<or>
       (\<exists>err. restoreProjectEnvironment w projectName loaded = Inl err) \<or>
       (\<exists>c err. connectToChittyChat w projectName = Inr c \<and>
                 setupChittyChatIntegration w projectName c = Inl err) \<or>
       (\<exists>r err. restoreProjectEnvironment w projectName loaded = Inr r \<and>
                 (createSessionScript w projectName r = Inl err \<or>
                  reportActive w projectName r = Inl err))"
  then have "\<exists>err. startSmartSession_try w fs projectName = Inl err"
    by (auto simp: startSmartSession_try_def split: sum.splits)
  then show "startSmartSession w fs projectName = Inr False"
    by (auto simp: startSmartSession_def)
next
  show "\<exists>result. startSmartSession w fs projectName = Inr result"
    by (cases "startSmartSession_try w fs projectName") (auto simp: startSmartSession_def)
qed

theorem restoration_fails_gracefully_witness:
  "readSmartSessionFile example_fs (js ''ghost'') = None \<and>
   startSmartSession failing_restorer example_fs (js ''ghost'') = Inr False \<and>
   startSmartSession_try failing_restorer example_fs (js ''idle'') =
     Inl (Failure (js ''no such directory'')) \<and>
   startSmartSession failing_restorer example_fs (js ''idle'') = Inr False"
proof -
  have ghost: "readSmartSessionFile example_fs (js ''ghost'') = None"
    by (simp add: readSmartSessionFile_def example_fs_def js_def)
  have thrown: "startSmartSession_try failing_restorer example_fs (js ''idle'') =
      Inl (Failure (js ''no such directory''))"
    by code_simp
  show ?thesis
    using restoration_fails_gracefully [of example_fs "js ''ghost''" failing_restorer]
      restoration_fails_gracefully [of example_fs "js ''idle''" failing_restorer]
      ghost thrown
    by simp
qed

end
